theory Spec2Isabelle
  imports Main "HOL-Library.Word"
begin

section \<open>The Gemini service: data\<close>

text \<open>
  The values exchanged with the remote model are the objects of the \<open>@google/genai\<close>
  package. Every field that the package declares optional is an \<open>option\<close> here:
  \<open>None\<close> is JavaScript's \<open>undefined\<close> (or \<open>null\<close>), which is what the source's
  \<open>?.\<close> and \<open>??\<close> operators test for.
\<close>

record blob =
  data :: "string option"
  mimeType :: "string option"

record part =
  inlineData :: "blob option"
  text_of :: "string option"

record content =
  parts :: "part list option"

record candidate =
  content_of :: "content option"

record response =
  candidates :: "candidate list option"

datatype modality = MODALITY_UNSPECIFIED | TEXT | IMAGE | AUDIO

record generate_config =
  responseModalities :: "modality list"

record generate_params =
  model :: string
  contents :: content
  config :: generate_config

text \<open>
  A thrown JavaScript value is either an instance of \<open>Error\<close>, which has a
  \<open>message\<close>, or any other value; the catch clause of the source tells the two apart
  with \<open>instanceof Error\<close> and looks at nothing else of the value.
\<close>

datatype 'v thrown = ErrorInstance string | NonError 'v

text \<open>
  The awaited call \<open>ai.models.generateContent\<close> either resolves with a response or
  rejects with a thrown value.
\<close>

datatype 'v call_outcome = Resolves response | Rejects "'v thrown"

text \<open>
  The promise that \<open>editImageWithPrompt\<close> returns: \<open>Success v\<close> is the promise
  resolved with the value \<open>v\<close> of line 38, \<open>Failure m\<close> is the promise rejected
  with \<open>new Error(m)\<close> of line 47. The returned value is
  \<open>part.inlineData.data\<close>, an optional field of the package's type, so it is a
  string or \<open>undefined\<close>.
\<close>

datatype edit_result = Success "string option" | Failure string

section \<open>The Gemini service: module load\<close>

text \<open>
  Lines 3 to 7. \<open>process.env\<close> is a map from names to strings. The guard
  \<open>!process.env.API_KEY\<close> holds when the variable is undefined and also when it is
  the empty string. A module whose evaluation throws exports nothing; the client
  \<open>ai\<close> exists only when the guard has been passed.
\<close>

record GoogleGenAI =
  apiKey :: string

definition load_module :: "(string \<rightharpoonup> string) \<Rightarrow> unit thrown + GoogleGenAI" where
  "load_module env =
     (case env ''API_KEY'' of
        None \<Rightarrow> Inl (ErrorInstance ''API_KEY environment variable not set'')
      | Some k \<Rightarrow>
          if k = [] then Inl (ErrorInstance ''API_KEY environment variable not set'')
          else Inr \<lparr>apiKey = k\<rparr>)"

section \<open>The Gemini service: editImageWithPrompt\<close>

text \<open>
  Lines 16 to 34: the argument of \<open>generateContent\<close>. The parameter
  \<open>base64ImageData\<close> is declared a string; the caller in \<open>App.tsx\<close> passes
  \<open>dataUri.split(',')[1]\<close>, which is \<open>undefined\<close> at run time when the string has no
  comma, so the model takes an optional string.
\<close>

definition request_of :: "string option \<Rightarrow> string \<Rightarrow> string \<Rightarrow> generate_params" where
  "request_of base64ImageData mime prompt =
     \<lparr>model = ''gemini-2.5-flash-image'',
      contents = \<lparr>parts = Some
        [\<lparr>inlineData = Some \<lparr>data = base64ImageData, mimeType = Some mime\<rparr>, text_of = None\<rparr>,
         \<lparr>inlineData = None, text_of = Some prompt\<rparr>]\<rparr>,
      config = \<lparr>responseModalities = [IMAGE]\<rparr>\<rparr>"

text \<open>
  Line 36: \<open>response.candidates?.[0]?.content?.parts ?? []\<close>. Indexing an empty
  array gives \<open>undefined\<close>; each \<open>?.\<close> passes \<open>undefined\<close> on.
\<close>

definition first_candidate :: "response \<Rightarrow> candidate option" where
  "first_candidate r =
     (case candidates r of None \<Rightarrow> None | Some [] \<Rightarrow> None | Some (c # _) \<Rightarrow> Some c)"

definition scanned_parts :: "response \<Rightarrow> part list" where
  "scanned_parts r =
     (case first_candidate r of
        None \<Rightarrow> []
      | Some c \<Rightarrow>
          (case content_of c of
             None \<Rightarrow> []
           | Some ct \<Rightarrow> (case parts ct of None \<Rightarrow> [] | Some ps \<Rightarrow> ps)))"

text \<open>
  Lines 36 to 42: the loop returns at the first part whose \<open>inlineData\<close> is truthy
  (an object is always truthy), and the statement after the loop throws.
\<close>

fun scan :: "part list \<Rightarrow> 'v thrown + string option" where
  "scan [] = Inl (ErrorInstance ''No image data found in the API response.'')"
| "scan (p # ps) = (case inlineData p of Some b \<Rightarrow> Inr (data b) | None \<Rightarrow> scan ps)"

text \<open>Lines 14 to 43: the body of the \<open>try\<close>, given the outcome of the awaited call.\<close>

definition try_body :: "'v call_outcome \<Rightarrow> 'v thrown + string option" where
  "try_body outcome =
     (case outcome of Rejects e \<Rightarrow> Inl e | Resolves r \<Rightarrow> scan (scanned_parts r))"

text \<open>Lines 44 to 48: the \<open>catch\<close> clause (the line written to the console apart).\<close>

definition errorMessage :: "'v thrown \<Rightarrow> string" where
  "errorMessage e =
     (case e of ErrorInstance m \<Rightarrow> m | NonError _ \<Rightarrow> ''An unknown error occurred.'')"

definition catch_clause :: "'v thrown \<Rightarrow> edit_result" where
  "catch_clause e = Failure (''Failed to generate image: '' @ errorMessage e)"

text \<open>
  What the function does once the awaited call has settled: the value returned inside
  the \<open>try\<close> resolves the promise, anything thrown there goes through the
  \<open>catch\<close> clause.
\<close>

definition settle :: "'v call_outcome \<Rightarrow> edit_result" where
  "settle outcome = (case try_body outcome of Inr v \<Rightarrow> Success v | Inl e \<Rightarrow> catch_clause e)"

text \<open>
  The whole function. The remote service is the parameter \<open>generateContent\<close>: what
  the call answers, for the client and the request it is given.
\<close>

definition editImageWithPrompt ::
  "(GoogleGenAI \<Rightarrow> generate_params \<Rightarrow> 'v call_outcome) \<Rightarrow> GoogleGenAI
     \<Rightarrow> string option \<Rightarrow> string \<Rightarrow> string \<Rightarrow> edit_result" where
  "editImageWithPrompt generateContent ai base64ImageData mime prompt =
     settle (generateContent ai (request_of base64ImageData mime prompt))"

text \<open>
  A caller reaches \<open>editImageWithPrompt\<close> only through an import of the module, which
  evaluates lines 3 to 7 first: when they throw, the import fails and there is no
  function to call.
\<close>

definition import_and_edit ::
  "(string \<rightharpoonup> string) \<Rightarrow> (GoogleGenAI \<Rightarrow> generate_params \<Rightarrow> 'v call_outcome)
     \<Rightarrow> string option \<Rightarrow> string \<Rightarrow> string \<Rightarrow> unit thrown + edit_result" where
  "import_and_edit env generateContent base64ImageData mime prompt =
     (case load_module env of
        Inl e \<Rightarrow> Inl e
      | Inr ai \<Rightarrow> Inr (editImageWithPrompt generateContent ai base64ImageData mime prompt))"

section \<open>Overlapping invocations\<close>

text \<open>
  An invocation of the asynchronous function runs in two turns of the event loop:
  from the call to the \<open>await\<close> of line 26, where the request has been sent, and from
  the settling of the awaited call to the end. Between the two turns any other
  invocation may run. The module has one variable, the constant \<open>ai\<close>, which no
  invocation assigns; the one thing invocations share and write is the console, to
  which line 45 appends what was caught.
\<close>

datatype invocation =
  Called "string option" string string
  | Awaiting generate_params
  | Settled edit_result

fun turn ::
  "(GoogleGenAI \<Rightarrow> generate_params \<Rightarrow> 'v call_outcome) \<Rightarrow> GoogleGenAI
     \<Rightarrow> invocation \<Rightarrow> 'v thrown list \<Rightarrow> invocation \<times> 'v thrown list" where
  "turn generateContent ai (Called base64ImageData mime prompt) console =
     (Awaiting (request_of base64ImageData mime prompt), console)"
| "turn generateContent ai (Awaiting req) console =
     (case try_body (generateContent ai req) of
        Inr v \<Rightarrow> (Settled (Success v), console)
      | Inl e \<Rightarrow> (Settled (catch_clause e), console @ [e]))"
| "turn generateContent ai (Settled res) console = (Settled res, console)"

text \<open>The state of an invocation after its next turn, the console left aside.\<close>

definition next_turn ::
  "(GoogleGenAI \<Rightarrow> generate_params \<Rightarrow> 'v call_outcome) \<Rightarrow> GoogleGenAI
     \<Rightarrow> invocation \<Rightarrow> invocation" where
  "next_turn g ai i = fst (turn g ai i ([] :: 'v thrown list))"

text \<open>
  Two invocations under a schedule: each entry of the schedule says which of the two
  runs its next turn (\<open>False\<close> the first, \<open>True\<close> the second). Each invocation has
  its own answer from the service.
\<close>

fun run_two ::
  "(GoogleGenAI \<Rightarrow> generate_params \<Rightarrow> 'v call_outcome)
     \<Rightarrow> (GoogleGenAI \<Rightarrow> generate_params \<Rightarrow> 'v call_outcome) \<Rightarrow> GoogleGenAI
     \<Rightarrow> bool list \<Rightarrow> invocation \<times> invocation \<times> 'v thrown list
     \<Rightarrow> invocation \<times> invocation \<times> 'v thrown list" where
  "run_two g1 g2 ai [] st = st"
| "run_two g1 g2 ai (second # schedule) (i1, i2, console) =
     (if second
      then (case turn g2 ai i2 console of
              (i2', console') \<Rightarrow> run_two g1 g2 ai schedule (i1, i2', console'))
      else (case turn g1 ai i1 console of
              (i1', console') \<Rightarrow> run_two g1 g2 ai schedule (i1', i2, console')))"

section \<open>The application: reading the uploaded file\<close>

text \<open>
  A \<open>File\<close> of the browser: its declared media type, its bytes, and whether the
  browser can read them.
\<close>

type_synonym byte = "8 word"

record js_file =
  ftype :: string
  fbytes :: "byte list"
  readable :: bool

text \<open>
  Base64 (RFC 4648) as \<open>FileReader.readAsDataURL\<close> writes it and as the browser reads
  it back from a data URI: three bytes become four characters of the alphabet, a last
  group of one or two bytes is padded with \<open>=\<close>.
\<close>

definition b64_alphabet :: string where
  "b64_alphabet = ''ABCDEFGHIJKLMNOPQRSTUVWXYZabcdefghijklmnopqrstuvwxyz0123456789+/''"

definition b64_char :: "nat \<Rightarrow> char" where
  "b64_char n = b64_alphabet ! n"

fun index_of :: "'a \<Rightarrow> 'a list \<Rightarrow> nat option" where
  "index_of x [] = None"
| "index_of x (y # ys) = (if x = y then Some 0 else map_option Suc (index_of x ys))"

definition b64_index :: "char \<Rightarrow> nat option" where
  "b64_index c = index_of c b64_alphabet"

fun base64_encode :: "byte list \<Rightarrow> string" where
  "base64_encode [] = []"
| "base64_encode [a] =
     [b64_char (unat a div 4), b64_char (unat a mod 4 * 16), CHR ''='', CHR ''='']"
| "base64_encode [a, b] =
     [b64_char (unat a div 4), b64_char (unat a mod 4 * 16 + unat b div 16),
      b64_char (unat b mod 16 * 4), CHR ''='']"
| "base64_encode (a # b # c # rest) =
     [b64_char (unat a div 4), b64_char (unat a mod 4 * 16 + unat b div 16),
      b64_char (unat b mod 16 * 4 + unat c div 64), b64_char (unat c mod 64)]
     @ base64_encode rest"

definition decode_group :: "char \<Rightarrow> char \<Rightarrow> char \<Rightarrow> char \<Rightarrow> byte list option" where
  "decode_group c0 c1 c2 c3 =
     (case (b64_index c0, b64_index c1, b64_index c2, b64_index c3) of
        (Some i0, Some i1, Some i2, Some i3) \<Rightarrow>
          Some [of_nat (i0 * 4 + i1 div 16), of_nat (i1 mod 16 * 16 + i2 div 4),
                of_nat (i2 mod 4 * 64 + i3)]
      | _ \<Rightarrow> None)"

definition decode_padded :: "char \<Rightarrow> char \<Rightarrow> char \<Rightarrow> byte list option" where
  "decode_padded c0 c1 c2 =
     (if c2 = CHR ''=''
      then (case (b64_index c0, b64_index c1) of
              (Some i0, Some i1) \<Rightarrow> Some [of_nat (i0 * 4 + i1 div 16)]
            | _ \<Rightarrow> None)
      else (case (b64_index c0, b64_index c1, b64_index c2) of
              (Some i0, Some i1, Some i2) \<Rightarrow>
                Some [of_nat (i0 * 4 + i1 div 16), of_nat (i1 mod 16 * 16 + i2 div 4)]
            | _ \<Rightarrow> None))"

fun base64_decode :: "string \<Rightarrow> byte list option" where
  "base64_decode [] = Some []"
| "base64_decode (c0 # c1 # c2 # c3 # rest) =
     (if rest = [] \<and> c3 = CHR ''='' then decode_padded c0 c1 c2
      else (case decode_group c0 c1 c2 c3 of
              None \<Rightarrow> None
            | Some bs \<Rightarrow>
                (case base64_decode rest of None \<Rightarrow> None | Some bs' \<Rightarrow> Some (bs @ bs'))))"
| "base64_decode _ = None"

text \<open>
  \<open>FileReader.readAsDataURL\<close>. For a file with bytes and a media type the result is
  \<open>data:\<close>, the type, \<open>;base64,\<close> and the encoded bytes. For an empty file and for a
  file without a type browsers differ; what the browser answers there is the
  parameter \<open>browser_specific\<close>.
\<close>

definition readAsDataURL :: "(js_file \<Rightarrow> string) \<Rightarrow> js_file \<Rightarrow> string" where
  "readAsDataURL browser_specific f =
     (if fbytes f = [] \<or> ftype f = [] then browser_specific f
      else ''data:'' @ ftype f @ '';base64,'' @ base64_encode (fbytes f))"

text \<open>
  Lines 6 to 15 of \<open>App.tsx\<close>: the promise resolves with the result of the reader, or
  rejects with the event of the reader's error, which is not an \<open>Error\<close>.
\<close>

definition fileToDataUri :: "(js_file \<Rightarrow> string) \<Rightarrow> js_file \<Rightarrow> unit thrown + string" where
  "fileToDataUri browser_specific f =
     (if readable f then Inr (readAsDataURL browser_specific f) else Inl (NonError ()))"

text \<open>
  JavaScript's \<open>s.split(',')\<close>: the pieces of \<open>s\<close> between the commas, at least one
  piece; and \<open>xs[i]\<close>, which is \<open>undefined\<close> beyond the end of the array.
\<close>

fun split_on :: "char \<Rightarrow> string \<Rightarrow> string list" where
  "split_on sep [] = [] # []"
| "split_on sep (c # cs) =
     (if c = sep then [] # split_on sep cs
      else (case split_on sep cs of [] \<Rightarrow> [c] # [] | w # ws \<Rightarrow> (c # w) # ws))"

fun element_at :: "'a list \<Rightarrow> nat \<Rightarrow> 'a option" where
  "element_at [] i = None"
| "element_at (x # xs) 0 = Some x"
| "element_at (x # xs) (Suc i) = element_at xs i"

text \<open>
  The type \<open>ImageFile\<close> of \<open>types.ts\<close> is not among the sources; its two fields are
  those of the object built on line 34. The field \<open>base64\<close> holds what
  \<open>split(',')[1]\<close> gave, a string or \<open>undefined\<close>.
\<close>

record ImageFile =
  file_of :: js_file
  base64 :: "string option"

text \<open>
  Lines 29 to 36: \<open>Inr (Some image)\<close> is the call \<open>onImageUpload(image)\<close>,
  \<open>Inr None\<close> is the handler ending without a call (no file selected), \<open>Inl e\<close> is
  the handler's promise rejected by the failed read.
\<close>

definition handleFileChange ::
  "(js_file \<Rightarrow> string) \<Rightarrow> js_file list option \<Rightarrow> unit thrown + ImageFile option" where
  "handleFileChange browser_specific files =
     (case (case files of None \<Rightarrow> None | Some [] \<Rightarrow> None | Some (f # _) \<Rightarrow> Some f) of
        None \<Rightarrow> Inr None
      | Some f \<Rightarrow>
          (case fileToDataUri browser_specific f of
             Inl e \<Rightarrow> Inl e
           | Inr dataUri \<Rightarrow>
               Inr (Some \<lparr>file_of = f, base64 = element_at (split_on CHR '','' dataUri) 1\<rparr>)))"

section \<open>The application: handleGenerate\<close>

record app_state =
  originalImage :: "ImageFile option"
  editedImage :: "string option"
  isLoading :: bool
  error :: "string option"
  generatedAccessory :: "string option"

definition filterPrompt :: string where
  "filterPrompt = ''Apply a cool, black and white security camera filter with a slight fish-eye lens effect to the image.''"

definition accessoryPrompt :: string where
  "accessoryPrompt = ''Overlay a stylish chain with the letters 'PUF' on it. The chain should be appropriately placed on the main subject of the image, whether it's a person, animal, or object.''"

definition accessoryType :: string where
  "accessoryType = ''PUF Chain''"

text \<open>Line 98: the constant \<open>prompt\<close>, the two instructions with a space between.\<close>

definition prompt_sent :: string where
  "prompt_sent = filterPrompt @ '' '' @ accessoryPrompt"

text \<open>A value inside a template literal: \<open>undefined\<close> is written \<open>undefined\<close>.\<close>

definition template_value :: "string option \<Rightarrow> string" where
  "template_value v = (case v of None \<Rightarrow> ''undefined'' | Some s \<Rightarrow> s)"

text \<open>
  Lines 83 to 112, from the state when the button is pressed to the state when the
  handler has ended. A rejected \<open>editImageWithPrompt\<close> carries an \<open>Error\<close>, whose
  message line 108 shows.
\<close>

definition handleGenerate ::
  "(GoogleGenAI \<Rightarrow> generate_params \<Rightarrow> 'v call_outcome) \<Rightarrow> GoogleGenAI
     \<Rightarrow> app_state \<Rightarrow> app_state" where
  "handleGenerate generateContent ai st =
     (case originalImage st of
        None \<Rightarrow> st\<lparr>error := Some ''Please upload an image first.''\<rparr>
      | Some img \<Rightarrow>
          (let st1 = st\<lparr>isLoading := True, error := None, editedImage := None,
                 generatedAccessory := None\<rparr>;
               st2 = (case editImageWithPrompt generateContent ai
                             (base64 img) (ftype (file_of img)) prompt_sent of
                        Success resultBase64 \<Rightarrow>
                          st1\<lparr>editedImage :=
                                 Some (''data:image/png;base64,'' @ template_value resultBase64),
                               generatedAccessory := Some accessoryType\<rparr>
                      | Failure message \<Rightarrow>
                          st1\<lparr>error := Some (errorMessage (ErrorInstance message :: unit thrown))\<rparr>)
           in st2\<lparr>isLoading := False\<rparr>))"

section \<open>The specification's notion of a valid payload\<close>

text \<open>
  This definition follows the wording of the specification, not the source, which has
  no such check: an encoded image is a payload that is present, is not empty and is
  well-formed base64.
\<close>

definition spec_structurally_valid :: "string option \<Rightarrow> bool" where
  "spec_structurally_valid v =
     (case v of None \<Rightarrow> False | Some s \<Rightarrow> s \<noteq> [] \<and> base64_decode s \<noteq> None)"

section \<open>Example responses\<close>

definition one_candidate :: "part list \<Rightarrow> response" where
  "one_candidate ps = \<lparr>candidates = Some [\<lparr>content_of = Some \<lparr>parts = Some ps\<rparr>\<rparr>]\<rparr>"

definition text_part :: "string \<Rightarrow> part" where
  "text_part s = \<lparr>inlineData = None, text_of = Some s\<rparr>"

definition image_part :: "string option \<Rightarrow> string option \<Rightarrow> part" where
  "image_part d mt = \<lparr>inlineData = Some \<lparr>data = d, mimeType = mt\<rparr>, text_of = None\<rparr>"

definition always :: "unit call_outcome \<Rightarrow> GoogleGenAI \<Rightarrow> generate_params \<Rightarrow> unit call_outcome" where
  "always outcome ai req = outcome"

definition test_client :: GoogleGenAI where
  "test_client = \<lparr>apiKey = ''key''\<rparr>"

definition png_file :: js_file where
  "png_file = \<lparr>ftype = ''image/png'', fbytes = [137, 80, 78, 71], readable = True\<rparr>"

definition empty_reads_as :: "js_file \<Rightarrow> string" where
  "empty_reads_as f = ''data:''"

definition uploaded_state :: app_state where
  "uploaded_state =
     \<lparr>originalImage = Some \<lparr>file_of = png_file, base64 = Some ''iVBORw==''\<rparr>,
      editedImage = None, isLoading = False, error = None, generatedAccessory = None\<rparr>"

section \<open>Properties of the scan\<close>

lemma scan_skips:
  "\<forall>q \<in> set pre. inlineData q = None \<Longrightarrow>
   (scan (pre @ rest) :: 'v thrown + string option) = scan rest"
  by (induction pre) simp_all

lemma scan_none:
  "\<forall>q \<in> set ps. inlineData q = None \<Longrightarrow>
   scan ps = Inl (ErrorInstance ''No image data found in the API response.'')"
  by (induction ps) simp_all

lemma scan_first:
  assumes "\<forall>q \<in> set pre. inlineData q = None" and "inlineData p = Some b"
  shows "scan (pre @ p # post) = Inr (data b)"
  using assms by (simp add: scan_skips)

lemma scan_found:
  "(scan ps :: 'v thrown + string option) = Inr v \<Longrightarrow>
   \<exists>pre ip post bl. ps = pre @ ip # post \<and> list_all (\<lambda>q. inlineData q = None) pre
      \<and> inlineData ip = Some bl \<and> v = data bl"
proof (induction ps)
  case Nil
  then show ?case by simp
next
  case (Cons a ps)
  show ?case
  proof (cases "inlineData a")
    case None
    with Cons.prems have "(scan ps :: 'v thrown + string option) = Inr v" by simp
    from Cons.IH [OF this] obtain pre ip post bl where
      "ps = pre @ ip # post" "list_all (\<lambda>q. inlineData q = None) pre"
      "inlineData ip = Some bl" "v = data bl" by blast
    with None have "a # ps = (a # pre) @ ip # post \<and>
      list_all (\<lambda>q. inlineData q = None) (a # pre) \<and> inlineData ip = Some bl \<and> v = data bl"
      by simp
    then show ?thesis by blast
  next
    case (Some bl)
    with Cons.prems have "a # ps = [] @ a # ps \<and> list_all (\<lambda>q. inlineData q = None) [] \<and>
      inlineData a = Some bl \<and> v = data bl" by simp
    then show ?thesis by blast
  qed
qed

lemma scanned_parts_present:
  "candidates r = Some (c # cs) \<Longrightarrow> content_of c = Some ct \<Longrightarrow> parts ct = Some ps \<Longrightarrow>
   scanned_parts r = ps"
  by (simp add: scanned_parts_def first_candidate_def)

lemma scanned_parts_absent:
  "candidates r = None \<Longrightarrow> scanned_parts r = []"
  "candidates r = Some [] \<Longrightarrow> scanned_parts r = []"
  "candidates r = Some (c # cs) \<Longrightarrow> content_of c = None \<Longrightarrow> scanned_parts r = []"
  "candidates r = Some (c # cs) \<Longrightarrow> content_of c = Some ct \<Longrightarrow> parts ct = None \<Longrightarrow>
   scanned_parts r = []"
  by (simp_all add: scanned_parts_def first_candidate_def)

lemma settle_resolves:
  "settle (Resolves r :: 'v call_outcome) =
     (case (scan (scanned_parts r) :: 'v thrown + string option) of
        Inr v \<Rightarrow> Success v
      | Inl e \<Rightarrow> catch_clause e)"
  by (simp add: settle_def try_body_def)

lemma settle_rejects: "settle (Rejects e) = catch_clause e"
  by (simp add: settle_def try_body_def)

lemma settle_image:
  assumes "scanned_parts r = pre @ ip # post"
    and "\<forall>q \<in> set pre. inlineData q = None"
    and "inlineData ip = Some bl"
  shows "settle (Resolves r :: 'v call_outcome) = Success (data bl)"
proof -
  have "(scan (pre @ ip # post) :: 'v thrown + string option) = Inr (data bl)"
    using assms(2,3) by (rule scan_first)
  then show ?thesis by (simp add: settle_resolves assms(1))
qed

lemma settle_no_image:
  assumes "\<forall>q \<in> set (scanned_parts r). inlineData q = None"
  shows "settle (Resolves r :: 'v call_outcome) =
     Failure ''Failed to generate image: No image data found in the API response.''"
proof -
  have "(scan (scanned_parts r) :: 'v thrown + string option) =
     Inl (ErrorInstance ''No image data found in the API response.'')"
    using assms by (rule scan_none)
  then show ?thesis by (simp add: settle_resolves catch_clause_def errorMessage_def)
qed

section \<open>Claims about editImageWithPrompt\<close>

text \<open>
  C1. When the call resolves, the parts of the first candidate are scanned in their
  order and the promise resolves with the \<open>data\<close> of the first part that has
  \<open>inlineData\<close>: the parts before it (which have none, text parts for instance), the
  parts after it (later image parts included) and the other candidates have no
  influence on the result.
\<close>

theorem first_image_part_wins:
  assumes "generateContent ai (request_of b m p) = (Resolves r :: 'v call_outcome)"
    and "candidates r = Some (c # cs)"
    and "content_of c = Some ct"
    and "parts ct = Some (pre @ ip # post)"
    and "\<forall>q \<in> set pre. inlineData q = None"
    and "inlineData ip = Some bl"
  shows "editImageWithPrompt generateContent ai b m p = Success (data bl)"
proof -
  have "scanned_parts r = pre @ ip # post"
    using assms(2-4) by (rule scanned_parts_present)
  then have "settle (Resolves r :: 'v call_outcome) = Success (data bl)"
    using assms(5,6) by (rule settle_image)
  then show ?thesis
    by (simp add: editImageWithPrompt_def assms(1))
qed

theorem first_image_part_wins_witness:
  "editImageWithPrompt
     (always (Resolves (one_candidate
        [text_part ''ok'', image_part (Some ''AAAA'') (Some ''image/png''),
         image_part (Some ''BBBB'') (Some ''image/png'')])))
     test_client (Some ''QUJD'') ''image/png'' ''edit'' = Success (Some ''AAAA'')"
  using first_image_part_wins
    [of "always (Resolves (one_candidate
        [text_part ''ok'', image_part (Some ''AAAA'') (Some ''image/png''),
         image_part (Some ''BBBB'') (Some ''image/png'')]))"
      test_client "Some ''QUJD''" "''image/png''" "''edit''"
      "one_candidate [text_part ''ok'', image_part (Some ''AAAA'') (Some ''image/png''),
         image_part (Some ''BBBB'') (Some ''image/png'')]"
      "\<lparr>content_of = Some \<lparr>parts = Some [text_part ''ok'',
         image_part (Some ''AAAA'') (Some ''image/png''),
         image_part (Some ''BBBB'') (Some ''image/png'')]\<rparr>\<rparr>"
      "[]"
      "\<lparr>parts = Some [text_part ''ok'', image_part (Some ''AAAA'') (Some ''image/png''),
         image_part (Some ''BBBB'') (Some ''image/png'')]\<rparr>"
      "[text_part ''ok'']"
      "image_part (Some ''AAAA'') (Some ''image/png'')"
      "[image_part (Some ''BBBB'') (Some ''image/png'')]"
      "\<lparr>data = Some ''AAAA'', mimeType = Some ''image/png''\<rparr>"]
  by (simp add: always_def one_candidate_def text_part_def image_part_def)

text \<open>
  C2. When the call resolves with a response in which there is no candidate (the list
  is absent or empty), or the first candidate has no content, or the content has no
  parts list, or no part of the list (an empty list included) has \<open>inlineData\<close>,
  the promise is rejected with the message that no image data was found. The function
  is total on every such response, and the result is not a \<open>Success\<close>.
\<close>

theorem no_image_data_is_failure:
  assumes "generateContent ai (request_of b m p) = (Resolves r :: 'v call_outcome)"
    and "candidates r = None \<or> candidates r = Some [] \<or>
      (\<exists>c cs. candidates r = Some (c # cs) \<and>
         (content_of c = None \<or>
          (\<exists>ct. content_of c = Some ct \<and>
             (parts ct = None \<or>
              (\<exists>ps. parts ct = Some ps \<and> (\<forall>q \<in> set ps. inlineData q = None))))))"
  shows "editImageWithPrompt generateContent ai b m p =
     Failure ''Failed to generate image: No image data found in the API response.''"
proof -
  have "\<forall>q \<in> set (scanned_parts r). inlineData q = None"
    using assms(2) by (auto simp: scanned_parts_absent scanned_parts_present)
  then have "settle (Resolves r :: 'v call_outcome) =
     Failure ''Failed to generate image: No image data found in the API response.''"
    by (rule settle_no_image)
  then show ?thesis
    by (simp add: editImageWithPrompt_def assms(1))
qed

theorem no_image_data_is_failure_witness:
  "editImageWithPrompt (always (Resolves \<lparr>candidates = Some []\<rparr>))
     test_client (Some ''QUJD'') ''image/png'' ''edit'' =
     Failure ''Failed to generate image: No image data found in the API response.'' \<and>
   editImageWithPrompt (always (Resolves (one_candidate [text_part ''ok''])))
     test_client (Some ''QUJD'') ''image/png'' ''edit'' =
     Failure ''Failed to generate image: No image data found in the API response.''"
proof
  show "editImageWithPrompt (always (Resolves \<lparr>candidates = Some []\<rparr>))
     test_client (Some ''QUJD'') ''image/png'' ''edit'' =
     Failure ''Failed to generate image: No image data found in the API response.''"
    using no_image_data_is_failure
      [of "always (Resolves \<lparr>candidates = Some []\<rparr>)" test_client "Some ''QUJD''"
        "''image/png''" "''edit''" "\<lparr>candidates = Some []\<rparr>"]
    by (simp add: always_def)
next
  have "candidates (one_candidate [text_part ''ok'']) =
      Some (\<lparr>content_of = Some \<lparr>parts = Some [text_part ''ok'']\<rparr>\<rparr> # []) \<and>
    content_of \<lparr>content_of = Some \<lparr>parts = Some [text_part ''ok'']\<rparr>\<rparr> =
      Some \<lparr>parts = Some [text_part ''ok'']\<rparr> \<and>
    parts \<lparr>parts = Some [text_part ''ok'']\<rparr> = Some [text_part ''ok''] \<and>
    (\<forall>q \<in> set [text_part ''ok'']. inlineData q = None)"
    by (simp add: one_candidate_def text_part_def)
  then have "\<exists>c cs. candidates (one_candidate [text_part ''ok'']) = Some (c # cs) \<and>
         (content_of c = None \<or>
          (\<exists>ct. content_of c = Some ct \<and>
             (parts ct = None \<or>
              (\<exists>ps. parts ct = Some ps \<and> (\<forall>q \<in> set ps. inlineData q = None)))))"
    by blast
  then show "editImageWithPrompt (always (Resolves (one_candidate [text_part ''ok''])))
     test_client (Some ''QUJD'') ''image/png'' ''edit'' =
     Failure ''Failed to generate image: No image data found in the API response.''"
    using no_image_data_is_failure
      [of "always (Resolves (one_candidate [text_part ''ok'']))" test_client "Some ''QUJD''"
        "''image/png''" "''edit''" "one_candidate [text_part ''ok'']"]
    by (simp add: always_def)
qed

text \<open>
  C3. Everything thrown inside the \<open>try\<close> passes through the one \<open>catch\<close>
  clause, which rejects the promise with a message that starts with
  \<open>Failed to generate image: \<close>. When the call rejects with an instance of
  \<open>Error\<close> (a transport fault, a response the client library could not read), the
  message of that error follows the prefix; when it rejects with any other value, the
  text \<open>An unknown error occurred.\<close> follows; when the call resolves and no image is
  found, the message of the error thrown on line 42 follows. Every \<open>Failure\<close> has
  the prefix.
\<close>

theorem failures_are_rewrapped:
  fixes generateContent :: "GoogleGenAI \<Rightarrow> generate_params \<Rightarrow> 'v call_outcome"
  shows "(generateContent ai (request_of b m p) = Rejects (ErrorInstance msg) \<longrightarrow>
      editImageWithPrompt generateContent ai b m p =
        Failure (''Failed to generate image: '' @ msg)) \<and>
    (generateContent ai (request_of b m p) = Rejects (NonError v) \<longrightarrow>
      editImageWithPrompt generateContent ai b m p =
        Failure ''Failed to generate image: An unknown error occurred.'') \<and>
    (generateContent ai (request_of b m p) = Resolves r \<and>
       (\<forall>q \<in> set (scanned_parts r). inlineData q = None) \<longrightarrow>
      editImageWithPrompt generateContent ai b m p =
        Failure ''Failed to generate image: No image data found in the API response.'') \<and>
    (\<forall>message. editImageWithPrompt generateContent ai b m p = Failure message \<longrightarrow>
      (\<exists>e. try_body (generateContent ai (request_of b m p)) = Inl e \<and>
         message = ''Failed to generate image: '' @ errorMessage e))"
proof (intro conjI impI allI)
  assume "generateContent ai (request_of b m p) = Rejects (ErrorInstance msg)"
  then show "editImageWithPrompt generateContent ai b m p =
      Failure (''Failed to generate image: '' @ msg)"
    by (simp add: editImageWithPrompt_def settle_rejects catch_clause_def errorMessage_def)
next
  assume "generateContent ai (request_of b m p) = Rejects (NonError v)"
  then show "editImageWithPrompt generateContent ai b m p =
      Failure ''Failed to generate image: An unknown error occurred.''"
    by (simp add: editImageWithPrompt_def settle_rejects catch_clause_def errorMessage_def)
next
  assume a: "generateContent ai (request_of b m p) = Resolves r \<and>
       (\<forall>q \<in> set (scanned_parts r). inlineData q = None)"
  then have "settle (Resolves r :: 'v call_outcome) =
     Failure ''Failed to generate image: No image data found in the API response.''"
    by (simp add: settle_no_image)
  with a show "editImageWithPrompt generateContent ai b m p =
      Failure ''Failed to generate image: No image data found in the API response.''"
    by (simp add: editImageWithPrompt_def)
next
  fix message
  assume "editImageWithPrompt generateContent ai b m p = Failure message"
  then show "\<exists>e. try_body (generateContent ai (request_of b m p)) = Inl e \<and>
         message = ''Failed to generate image: '' @ errorMessage e"
    by (auto simp: editImageWithPrompt_def settle_def catch_clause_def split: sum.splits)
qed

theorem failures_are_rewrapped_witness:
  "editImageWithPrompt (always (Rejects (ErrorInstance ''connection reset'')))
     test_client (Some ''QUJD'') ''image/png'' ''edit'' =
     Failure ''Failed to generate image: connection reset'' \<and>
   editImageWithPrompt (always (Rejects (NonError ())))
     test_client (Some ''QUJD'') ''image/png'' ''edit'' =
     Failure ''Failed to generate image: An unknown error occurred.'' \<and>
   editImageWithPrompt (always (Resolves \<lparr>candidates = None\<rparr>))
     test_client (Some ''QUJD'') ''image/png'' ''edit'' =
     Failure ''Failed to generate image: No image data found in the API response.''"
  using
    failures_are_rewrapped
      [of "always (Rejects (ErrorInstance ''connection reset''))" test_client
        "Some ''QUJD''" "''image/png''" "''edit''" "''connection reset''"]
    failures_are_rewrapped
      [of "always (Rejects (NonError ()))" test_client
        "Some ''QUJD''" "''image/png''" "''edit''" _ "()"]
    failures_are_rewrapped
      [of "always (Resolves \<lparr>candidates = None\<rparr>)" test_client
        "Some ''QUJD''" "''image/png''" "''edit''" _ _ "\<lparr>candidates = None\<rparr>"]
  by (simp add: always_def scanned_parts_def first_candidate_def)

text \<open>
  C4. For every image, media type and instruction, the request that the function
  sends has exactly two parts: first the part with \<open>inlineData\<close>, holding the image
  data and the media type, and then the part with the instruction as \<open>text\<close>; its
  configuration asks for the one modality \<open>IMAGE\<close>; its model is the constant
  \<open>gemini-2.5-flash-image\<close>. The function asks the service exactly this request and
  settles on its answer: a service that resolves with an image for this request alone,
  and rejects every other, makes the function succeed with that image; a service that
  rejects this request alone, and resolves every other, makes it fail with that error.
\<close>

theorem request_is_fixed:
  fixes g :: "GoogleGenAI \<Rightarrow> generate_params \<Rightarrow> 'v call_outcome"
  shows "(\<exists>ip tp. parts (contents (request_of b m p)) = Some [ip, tp] \<and>
      inlineData ip = Some \<lparr>data = b, mimeType = Some m\<rparr> \<and> text_of ip = None \<and>
      inlineData tp = None \<and> text_of tp = Some p) \<and>
   responseModalities (config (request_of b m p)) = [IMAGE] \<and>
   model (request_of b m p) = ''gemini-2.5-flash-image'' \<and>
   editImageWithPrompt g ai b m p =
     settle (g ai
       \<lparr>model = ''gemini-2.5-flash-image'',
        contents = \<lparr>parts = Some
          [\<lparr>inlineData = Some \<lparr>data = b, mimeType = Some m\<rparr>, text_of = None\<rparr>,
           \<lparr>inlineData = None, text_of = Some p\<rparr>]\<rparr>,
        config = \<lparr>responseModalities = [IMAGE]\<rparr>\<rparr>) \<and>
   editImageWithPrompt
     (\<lambda>a q. if a = ai \<and> q =
          \<lparr>model = ''gemini-2.5-flash-image'',
           contents = \<lparr>parts = Some
             [\<lparr>inlineData = Some \<lparr>data = b, mimeType = Some m\<rparr>, text_of = None\<rparr>,
              \<lparr>inlineData = None, text_of = Some p\<rparr>]\<rparr>,
           config = \<lparr>responseModalities = [IMAGE]\<rparr>\<rparr>
        then Resolves (one_candidate [image_part d mt])
        else (Rejects (NonError v) :: 'v call_outcome))
     ai b m p = Success d \<and>
   editImageWithPrompt
     (\<lambda>a q. if a = ai \<and> q =
          \<lparr>model = ''gemini-2.5-flash-image'',
           contents = \<lparr>parts = Some
             [\<lparr>inlineData = Some \<lparr>data = b, mimeType = Some m\<rparr>, text_of = None\<rparr>,
              \<lparr>inlineData = None, text_of = Some p\<rparr>]\<rparr>,
           config = \<lparr>responseModalities = [IMAGE]\<rparr>\<rparr>
        then (Rejects (ErrorInstance msg) :: 'v call_outcome)
        else Resolves (one_candidate [image_part d mt]))
     ai b m p = Failure (''Failed to generate image: '' @ msg)"
proof -
  have sent: "request_of b m p =
       \<lparr>model = ''gemini-2.5-flash-image'',
        contents = \<lparr>parts = Some
          [\<lparr>inlineData = Some \<lparr>data = b, mimeType = Some m\<rparr>, text_of = None\<rparr>,
           \<lparr>inlineData = None, text_of = Some p\<rparr>]\<rparr>,
        config = \<lparr>responseModalities = [IMAGE]\<rparr>\<rparr>"
    by (simp add: request_of_def)
  have found: "settle (Resolves (one_candidate [image_part d mt]) :: 'v call_outcome) = Success d"
    by (simp add: settle_resolves scanned_parts_def first_candidate_def one_candidate_def
        image_part_def)
  have failed: "settle (Rejects (ErrorInstance msg) :: 'v call_outcome) =
      Failure (''Failed to generate image: '' @ msg)"
    by (simp add: settle_rejects catch_clause_def errorMessage_def)
  show ?thesis
    unfolding editImageWithPrompt_def sent [symmetric]
    by (simp add: found failed) (simp add: request_of_def)
qed

theorem request_is_fixed_witness:
  "editImageWithPrompt
     (\<lambda>a q. if a = test_client \<and> q =
          \<lparr>model = ''gemini-2.5-flash-image'',
           contents = \<lparr>parts = Some
             [\<lparr>inlineData = Some \<lparr>data = Some ''QUJD'', mimeType = Some ''image/png''\<rparr>,
               text_of = None\<rparr>,
              \<lparr>inlineData = None, text_of = Some ''edit''\<rparr>]\<rparr>,
           config = \<lparr>responseModalities = [IMAGE]\<rparr>\<rparr>
        then Resolves (one_candidate [image_part (Some ''AAAA'') None])
        else Rejects (NonError ()))
     test_client (Some ''QUJD'') ''image/png'' ''edit'' = Success (Some ''AAAA'') \<and>
   editImageWithPrompt
     (\<lambda>a q. if a = test_client \<and> q =
          \<lparr>model = ''gemini-2.5-flash-image'',
           contents = \<lparr>parts = Some
             [\<lparr>inlineData = Some \<lparr>data = Some ''QUJD'', mimeType = Some ''image/png''\<rparr>,
               text_of = None\<rparr>,
              \<lparr>inlineData = None, text_of = Some ''edit''\<rparr>]\<rparr>,
           config = \<lparr>responseModalities = [IMAGE]\<rparr>\<rparr>
        then (Rejects (ErrorInstance ''connection reset'') :: unit call_outcome)
        else Resolves (one_candidate [image_part (Some ''AAAA'') None]))
     test_client (Some ''QUJD'') ''image/png'' ''edit'' =
     Failure ''Failed to generate image: connection reset''"
  using request_is_fixed
    [of "Some ''QUJD''" "''image/png''" "''edit''" "always (Rejects (NonError ()))"
      test_client "Some ''AAAA''" None "()" "''connection reset''"]
  by simp

text \<open>
  C9. The payload is not validated. When the first part of the first candidate that
  has \<open>inlineData\<close> has no \<open>data\<close>, the promise resolves with \<open>undefined\<close>; when
  its \<open>data\<close> is the empty string, the promise resolves with the empty string. In
  neither case is the result a \<open>Failure\<close>.
\<close>

theorem payload_is_not_validated:
  assumes "generateContent ai (request_of b m p) = (Resolves r :: 'v call_outcome)"
    and "scanned_parts r = pre @ ip # post"
    and "\<forall>q \<in> set pre. inlineData q = None"
    and "inlineData ip = Some bl"
  shows "(data bl = None \<longrightarrow> editImageWithPrompt generateContent ai b m p = Success None) \<and>
    (data bl = Some [] \<longrightarrow>
       editImageWithPrompt generateContent ai b m p = Success (Some []))"
proof -
  have "settle (Resolves r :: 'v call_outcome) = Success (data bl)"
    using assms(2-4) by (rule settle_image)
  then have "editImageWithPrompt generateContent ai b m p = Success (data bl)"
    by (simp add: editImageWithPrompt_def assms(1))
  then show ?thesis by simp
qed

theorem payload_is_not_validated_witness:
  "editImageWithPrompt
     (always (Resolves (one_candidate [text_part ''ok'', image_part None (Some ''image/png'')])))
     test_client (Some ''QUJD'') ''image/png'' ''edit'' = Success None \<and>
   editImageWithPrompt
     (always (Resolves (one_candidate [text_part ''ok'', image_part (Some []) None])))
     test_client (Some ''QUJD'') ''image/png'' ''edit'' = Success (Some [])"
  using
    payload_is_not_validated
      [of "always (Resolves (one_candidate [text_part ''ok'', image_part None (Some ''image/png'')]))"
        test_client "Some ''QUJD''" "''image/png''" "''edit''"
        "one_candidate [text_part ''ok'', image_part None (Some ''image/png'')]"
        "[text_part ''ok'']" "image_part None (Some ''image/png'')" "[]"
        "\<lparr>data = None, mimeType = Some ''image/png''\<rparr>"]
    payload_is_not_validated
      [of "always (Resolves (one_candidate [text_part ''ok'', image_part (Some []) None]))"
        test_client "Some ''QUJD''" "''image/png''" "''edit''"
        "one_candidate [text_part ''ok'', image_part (Some []) None]"
        "[text_part ''ok'']" "image_part (Some []) None" "[]"
        "\<lparr>data = Some [], mimeType = None\<rparr>"]
  by (simp add: always_def one_candidate_def text_part_def image_part_def
      scanned_parts_def first_candidate_def)

section \<open>Claims about the module load\<close>

text \<open>
  C7. When \<open>API_KEY\<close> is not in the environment, the evaluation of the module
  throws, and an importer gets the thrown error instead of any result of
  \<open>editImageWithPrompt\<close>, whatever the service would answer. Conversely, whenever
  \<open>editImageWithPrompt\<close> produces a result, the module was loaded with a key that
  is present and not empty, and the function ran with the client built from that key.
\<close>

theorem missing_credential_fails_at_load:
  "(env ''API_KEY'' = None \<longrightarrow>
      load_module env = Inl (ErrorInstance ''API_KEY environment variable not set'') \<and>
      import_and_edit env g b m p =
        Inl (ErrorInstance ''API_KEY environment variable not set'')) \<and>
   (\<forall>res. import_and_edit env g b m p = Inr res \<longrightarrow>
      (\<exists>k. env ''API_KEY'' = Some k \<and> k \<noteq> [] \<and>
         load_module env = Inr \<lparr>apiKey = k\<rparr> \<and>
         res = editImageWithPrompt g \<lparr>apiKey = k\<rparr> b m p))"
  by (auto simp: load_module_def import_and_edit_def split: option.splits if_splits)

theorem missing_credential_fails_at_load_witness:
  "load_module Map.empty = Inl (ErrorInstance ''API_KEY environment variable not set'') \<and>
   import_and_edit Map.empty
     (always (Resolves (one_candidate [image_part (Some ''AAAA'') None])))
     (Some ''QUJD'') ''image/png'' ''edit'' =
     Inl (ErrorInstance ''API_KEY environment variable not set'') \<and>
   load_module [''API_KEY'' \<mapsto> ''secret''] = Inr \<lparr>apiKey = ''secret''\<rparr>"
  using missing_credential_fails_at_load
    [of Map.empty "always (Resolves (one_candidate [image_part (Some ''AAAA'') None]))"
      "Some ''QUJD''" "''image/png''" "''edit''"]
  by (simp add: load_module_def)

section \<open>Overlapping invocations: independence\<close>

lemma fst_turn: "fst (turn g ai i console) = next_turn g ai i"
  by (cases i) (simp_all add: next_turn_def split: sum.splits)

lemma run_two_first:
  "fst (run_two g1 g2 ai schedule (i1, i2, console)) =
     (next_turn g1 ai ^^ count_list schedule False) i1"
proof (induction schedule arbitrary: i1 i2 console)
  case Nil
  then show ?case by simp
next
  case (Cons second schedule)
  show ?case
  proof (cases second)
    case True
    obtain i2' console' where "turn g2 ai i2 console = (i2', console')"
      by (cases "turn g2 ai i2 console")
    with True show ?thesis
      by (simp add: Cons.IH)
  next
    case False
    obtain i1' console' where t: "turn g1 ai i1 console = (i1', console')"
      by (cases "turn g1 ai i1 console")
    then have "i1' = next_turn g1 ai i1"
      using fst_turn [of g1 ai i1 console] by simp
    with False t show ?thesis
      by (simp add: Cons.IH funpow_swap1)
  qed
qed

lemma run_two_second:
  "fst (snd (run_two g1 g2 ai schedule (i1, i2, console))) =
     (next_turn g2 ai ^^ count_list schedule True) i2"
proof (induction schedule arbitrary: i1 i2 console)
  case Nil
  then show ?case by simp
next
  case (Cons second schedule)
  show ?case
  proof (cases second)
    case False
    obtain i1' console' where "turn g1 ai i1 console = (i1', console')"
      by (cases "turn g1 ai i1 console")
    with False show ?thesis
      by (simp add: Cons.IH)
  next
    case True
    obtain i2' console' where t: "turn g2 ai i2 console = (i2', console')"
      by (cases "turn g2 ai i2 console")
    then have "i2' = next_turn g2 ai i2"
      using fst_turn [of g2 ai i2 console] by simp
    with True t show ?thesis
      by (simp add: Cons.IH funpow_swap1)
  qed
qed

lemma next_turn_settled: "(next_turn g ai ^^ n) (Settled res) = Settled res"
  by (induction n) (simp_all add: next_turn_def)

lemma two_turns_settle:
  "2 \<le> n \<Longrightarrow>
   (next_turn g ai ^^ n) (Called b m p) = Settled (editImageWithPrompt g ai b m p)"
proof -
  assume "2 \<le> n"
  then obtain k where n: "n = k + 2" by (metis add.commute le_Suc_ex)
  have "(next_turn g ai ^^ 2) (Called b m p) = Settled (editImageWithPrompt g ai b m p)"
    by (simp add: numeral_2_eq_2 next_turn_def editImageWithPrompt_def settle_def
        split: sum.splits)
  then show ?thesis
    unfolding n funpow_add by (simp add: next_turn_settled)
qed

text \<open>
  C8. Two invocations with their own inputs and their own answers from the service,
  interleaved in any order in which each gets its two turns: each ends settled with
  exactly the result that \<open>editImageWithPrompt\<close> gives for its own input and its
  own answer. The only state they share and write, the console, is not read by
  either.
\<close>

theorem overlapping_invocations_are_independent:
  assumes "2 \<le> count_list schedule False" and "2 \<le> count_list schedule True"
  shows "\<exists>console'.
    run_two g1 g2 ai schedule (Called b1 m1 p1, Called b2 m2 p2, console) =
      (Settled (editImageWithPrompt g1 ai b1 m1 p1),
       Settled (editImageWithPrompt g2 ai b2 m2 p2), console')"
proof -
  obtain r1 r2 c where r: "run_two g1 g2 ai schedule (Called b1 m1 p1, Called b2 m2 p2, console) = (r1, r2, c)"
    by (cases "run_two g1 g2 ai schedule (Called b1 m1 p1, Called b2 m2 p2, console)")
  have "r1 = Settled (editImageWithPrompt g1 ai b1 m1 p1)"
    using run_two_first [of g1 g2 ai schedule "Called b1 m1 p1" "Called b2 m2 p2" console]
      two_turns_settle [OF assms(1), of g1 ai b1 m1 p1] r by simp
  moreover have "r2 = Settled (editImageWithPrompt g2 ai b2 m2 p2)"
    using run_two_second [of g1 g2 ai schedule "Called b1 m1 p1" "Called b2 m2 p2" console]
      two_turns_settle [OF assms(2), of g2 ai b2 m2 p2] r by simp
  ultimately show ?thesis using r by simp
qed

theorem overlapping_invocations_are_independent_witness:
  "2 \<le> count_list [False, True, True, False] False \<and>
   2 \<le> count_list [False, True, True, False] True \<and>
   (\<exists>console'.
      run_two (always (Resolves (one_candidate [image_part (Some ''AAAA'') None])))
        (always (Rejects (ErrorInstance ''connection reset''))) test_client
        [False, True, True, False]
        (Called (Some ''QUJD'') ''image/png'' ''first'',
         Called (Some ''UVJT'') ''image/jpeg'' ''second'', []) =
      (Settled (editImageWithPrompt
          (always (Resolves (one_candidate [image_part (Some ''AAAA'') None])))
          test_client (Some ''QUJD'') ''image/png'' ''first''),
       Settled (editImageWithPrompt
          (always (Rejects (ErrorInstance ''connection reset'')))
          test_client (Some ''UVJT'') ''image/jpeg'' ''second''),
       console'))"
proof -
  have h1: "2 \<le> count_list [False, True, True, False] False"
    and h2: "2 \<le> count_list [False, True, True, False] True"
    by simp_all
  from overlapping_invocations_are_independent [OF h1 h2] h1 h2
  show ?thesis by blast
qed

section \<open>Reading the uploaded file: the round trip\<close>

lemma index_of_nth:
  "distinct xs \<Longrightarrow> i < length xs \<Longrightarrow> index_of (xs ! i) xs = Some i"
proof (induction xs arbitrary: i)
  case Nil
  then show ?case by simp
next
  case (Cons x xs)
  show ?case
  proof (cases i)
    case 0
    then show ?thesis by simp
  next
    case (Suc j)
    with Cons.prems have "xs ! j \<noteq> x" by auto
    with Suc Cons show ?thesis by simp
  qed
qed

lemma b64_alphabet_length: "length b64_alphabet = 64"
  by (simp add: b64_alphabet_def)

lemma b64_alphabet_distinct: "distinct b64_alphabet"
  by (simp add: b64_alphabet_def)

lemma b64_index_char: "n < 64 \<Longrightarrow> b64_index (b64_char n) = Some n"
  by (simp add: b64_index_def b64_char_def index_of_nth b64_alphabet_distinct
      b64_alphabet_length)

lemma b64_char_in: "n < 64 \<Longrightarrow> b64_char n \<in> set b64_alphabet"
  by (simp add: b64_char_def b64_alphabet_length)

lemma b64_char_not_pad: "n < 64 \<Longrightarrow> b64_char n \<noteq> CHR ''=''"
proof -
  assume "n < 64"
  then have "b64_char n \<in> set b64_alphabet" by (rule b64_char_in)
  moreover have "CHR ''='' \<notin> set b64_alphabet" by (simp add: b64_alphabet_def)
  ultimately show ?thesis by metis
qed

lemma b64_char_not_comma: "n < 64 \<Longrightarrow> CHR '','' \<noteq> b64_char n"
proof -
  assume "n < 64"
  then have "b64_char n \<in> set b64_alphabet" by (rule b64_char_in)
  moreover have "CHR '','' \<notin> set b64_alphabet" by (simp add: b64_alphabet_def)
  ultimately show ?thesis by metis
qed

lemma byte_bound: "unat (a :: byte) < 256"
  using unsigned_less [of a, where ?'a = nat] by simp

lemma byte_of_unat: "of_nat (unat a) = (a :: byte)"
  by simp

lemma sextet_bounds_nat:
  fixes x y :: nat
  shows "x < 256 \<Longrightarrow> x div 4 < 64"
    and "x < 256 \<Longrightarrow> y < 256 \<Longrightarrow> x mod 4 * 16 + y div 16 < 64"
    and "x < 256 \<Longrightarrow> y < 256 \<Longrightarrow> x mod 16 * 4 + y div 64 < 64"
    and "x mod 64 < 64" and "x mod 4 * 16 < 64" and "x mod 16 * 4 < 64"
  by simp_all

lemma regroup_nat:
  fixes x y z :: nat
  shows "x < 256 \<Longrightarrow> y < 256 \<Longrightarrow> x div 4 * 4 + (x mod 4 * 16 + y div 16) div 16 = x"
    and "y < 256 \<Longrightarrow> z < 256 \<Longrightarrow>
      (x mod 4 * 16 + y div 16) mod 16 * 16 + (y mod 16 * 4 + z div 64) div 4 = y"
    and "z < 256 \<Longrightarrow> (y mod 16 * 4 + z div 64) mod 4 * 64 + z mod 64 = z"
    and "x div 4 * 4 + (x mod 4 * 16) div 16 = x"
    and "y < 256 \<Longrightarrow> (x mod 4 * 16 + y div 16) mod 16 * 16 + (y mod 16 * 4) div 4 = y"
  by simp_all

lemma sextet_bounds:
  fixes a b :: byte
  shows "unat a div 4 < 64" and "unat a mod 4 * 16 + unat b div 16 < 64"
    and "unat a mod 16 * 4 + unat b div 64 < 64" and "unat a mod 64 < 64"
    and "unat a mod 4 * 16 < 64" and "unat a mod 16 * 4 < 64"
  by (rule sextet_bounds_nat byte_bound)+

lemma regroup:
  fixes a b c :: byte
  shows "unat a div 4 * 4 + (unat a mod 4 * 16 + unat b div 16) div 16 = unat a"
    and "(unat a mod 4 * 16 + unat b div 16) mod 16 * 16
           + (unat b mod 16 * 4 + unat c div 64) div 4 = unat b"
    and "(unat b mod 16 * 4 + unat c div 64) mod 4 * 64 + unat c mod 64 = unat c"
    and "unat a div 4 * 4 + (unat a mod 4 * 16) div 16 = unat a"
    and "(unat a mod 4 * 16 + unat b div 16) mod 16 * 16 + (unat b mod 16 * 4) div 4 = unat b"
  by (rule regroup_nat byte_bound)+

lemma decode_group_chars:
  assumes "i0 < 64" and "i1 < 64" and "i2 < 64" and "i3 < 64"
  shows "decode_group (b64_char i0) (b64_char i1) (b64_char i2) (b64_char i3) =
     Some [of_nat (i0 * 4 + i1 div 16), of_nat (i1 mod 16 * 16 + i2 div 4),
           of_nat (i2 mod 4 * 64 + i3)]"
  by (simp only: decode_group_def b64_index_char [OF assms(1)] b64_index_char [OF assms(2)]
      b64_index_char [OF assms(3)] b64_index_char [OF assms(4)] prod.case option.case)

lemma decode_padded_chars:
  assumes "i0 < 64" and "i1 < 64"
  shows "decode_padded (b64_char i0) (b64_char i1) CHR ''='' = Some [of_nat (i0 * 4 + i1 div 16)]"
  by (simp only: decode_padded_def b64_index_char [OF assms(1)] b64_index_char [OF assms(2)]
      prod.case option.case simp_thms if_True)

lemma decode_padded_chars2:
  assumes "i0 < 64" and "i1 < 64" and "i2 < 64"
  shows "decode_padded (b64_char i0) (b64_char i1) (b64_char i2) =
     Some [of_nat (i0 * 4 + i1 div 16), of_nat (i1 mod 16 * 16 + i2 div 4)]"
  by (simp only: decode_padded_def b64_index_char [OF assms(1)] b64_index_char [OF assms(2)]
      b64_index_char [OF assms(3)] b64_char_not_pad [OF assms(3)] prod.case option.case if_False)

lemma decode_group_encode:
  "decode_group (b64_char (unat a div 4)) (b64_char (unat a mod 4 * 16 + unat b div 16))
     (b64_char (unat b mod 16 * 4 + unat c div 64)) (b64_char (unat c mod 64)) = Some [a, b, c]"
  by (simp only: decode_group_chars [OF sextet_bounds(1) sextet_bounds(2) sextet_bounds(3)
        sextet_bounds(4)] regroup byte_of_unat)

lemma decode_padded_one:
  "decode_padded (b64_char (unat a div 4)) (b64_char (unat a mod 4 * 16)) CHR ''='' = Some [a]"
  by (simp only: decode_padded_chars [OF sextet_bounds(1) sextet_bounds(5)] regroup byte_of_unat)

lemma decode_padded_two:
  "decode_padded (b64_char (unat a div 4)) (b64_char (unat a mod 4 * 16 + unat b div 16))
     (b64_char (unat b mod 16 * 4)) = Some [a, b]"
  by (simp only: decode_padded_chars2 [OF sextet_bounds(1) sextet_bounds(2) sextet_bounds(6)]
      regroup byte_of_unat)

lemma base64_roundtrip: "base64_decode (base64_encode bs) = Some bs"
proof (induction bs rule: base64_encode.induct)
  case 1
  then show ?case by simp
next
  case (2 a)
  then show ?case by (simp add: decode_padded_one)
next
  case (3 a b)
  then show ?case by (simp add: decode_padded_two)
next
  case (4 a b c rest)
  have "b64_char (unat c mod 64) \<noteq> CHR ''=''"
    by (rule b64_char_not_pad) (rule sextet_bounds)
  with 4 show ?case
    by (simp add: decode_group_encode)
qed

lemma base64_encode_no_comma: "CHR '','' \<notin> set (base64_encode bs)"
proof (induction bs rule: base64_encode.induct)
  case 1
  then show ?case by simp
next
  case (2 a)
  show ?case
    by (simp add: b64_char_not_comma sextet_bounds)
next
  case (3 a b)
  show ?case
    by (simp add: b64_char_not_comma sextet_bounds)
next
  case (4 a b c rest)
  then show ?case
    by (simp add: b64_char_not_comma sextet_bounds)
qed

lemma split_on_none: "sep \<notin> set s \<Longrightarrow> split_on sep s = [s]"
proof (induction s)
  case Nil
  then show ?case by simp
next
  case (Cons c s)
  then have "c \<noteq> sep" and "sep \<notin> set s" by auto
  with Cons.IH show ?case by simp
qed

lemma split_on_first:
  "sep \<notin> set a \<Longrightarrow> split_on sep (a @ sep # b) = a # split_on sep b"
proof (induction a)
  case Nil
  then show ?case by simp
next
  case (Cons c a)
  then have "c \<noteq> sep" and "sep \<notin> set a" by auto
  with Cons.IH show ?case by simp
qed

lemma split_data_uri:
  assumes "CHR '','' \<notin> set t" and "CHR '','' \<notin> set payload"
  shows "element_at (split_on CHR '','' (''data:'' @ t @ '';base64,'' @ payload)) 1 = Some payload"
proof -
  have "''data:'' @ t @ '';base64,'' @ payload = (''data:'' @ t @ '';base64'') @ CHR '','' # payload"
    by simp
  moreover have "CHR '','' \<notin> set (''data:'' @ t @ '';base64'')"
    using assms(1) by simp
  ultimately have "split_on CHR '','' (''data:'' @ t @ '';base64,'' @ payload) =
      (''data:'' @ t @ '';base64'') # split_on CHR '','' payload"
    using split_on_first [of "CHR '',''" "''data:'' @ t @ '';base64''" payload] by simp
  then show ?thesis
    using assms(2) by (simp add: split_on_none)
qed

lemma handleFileChange_reads:
  assumes "readable f" and "fbytes f \<noteq> []" and "ftype f \<noteq> []"
    and "CHR '','' \<notin> set (ftype f)"
  shows "handleFileChange browser_specific (Some (f # fs)) =
     Inr (Some \<lparr>file_of = f, base64 = Some (base64_encode (fbytes f))\<rparr>)"
proof -
  have "fileToDataUri browser_specific f =
      Inr (''data:'' @ ftype f @ '';base64,'' @ base64_encode (fbytes f))"
    using assms(1-3) by (simp add: fileToDataUri_def readAsDataURL_def)
  moreover have "element_at (split_on CHR '',''
      (''data:'' @ ftype f @ '';base64,'' @ base64_encode (fbytes f))) 1 =
      Some (base64_encode (fbytes f))"
    using assms(4) base64_encode_no_comma by (rule split_data_uri)
  ultimately show ?thesis
    by (simp only: handleFileChange_def list.case option.case sum.case)
qed

lemma png_upload:
  "handleFileChange empty_reads_as (Some [png_file]) =
     Inr (Some \<lparr>file_of = png_file, base64 = Some ''iVBORw==''\<rparr>)"
  by code_simp

text \<open>
  C6. For a readable file with at least one byte and a media type that is not empty
  and has no comma (as every type of the form \<open>type/subtype\<close> is), the handler
  uploads an image whose \<open>base64\<close> field decodes to exactly the bytes of the file,
  and whose media type, read from the file it keeps, is the file's declared type.
\<close>

theorem encode_roundtrip:
  assumes "readable f" and "fbytes f \<noteq> []" and "ftype f \<noteq> []"
    and "CHR '','' \<notin> set (ftype f)"
  shows "\<exists>payload.
      handleFileChange browser_specific (Some (f # fs)) =
        Inr (Some \<lparr>file_of = f, base64 = Some payload\<rparr>) \<and>
      base64_decode payload = Some (fbytes f) \<and>
      ftype (file_of \<lparr>file_of = f, base64 = Some payload\<rparr>) = ftype f"
proof -
  have "handleFileChange browser_specific (Some (f # fs)) =
      Inr (Some \<lparr>file_of = f, base64 = Some (base64_encode (fbytes f))\<rparr>)"
    using assms by (rule handleFileChange_reads)
  moreover have "base64_decode (base64_encode (fbytes f)) = Some (fbytes f)"
    by (rule base64_roundtrip)
  moreover have "ftype (file_of \<lparr>file_of = f, base64 = Some (base64_encode (fbytes f))\<rparr>) =
      ftype f"
    by simp
  ultimately show ?thesis by blast
qed

theorem encode_roundtrip_witness:
  "handleFileChange empty_reads_as (Some [png_file]) =
     Inr (Some \<lparr>file_of = png_file, base64 = Some ''iVBORw==''\<rparr>) \<and>
   base64_decode ''iVBORw=='' = Some [137, 80, 78, 71] \<and>
   ftype (file_of \<lparr>file_of = png_file, base64 = Some ''iVBORw==''\<rparr>) = ''image/png''"
proof -
  have "readable png_file" and "fbytes png_file \<noteq> []" and "ftype png_file \<noteq> []"
    and "CHR '','' \<notin> set (ftype png_file)"
    by (simp_all add: png_file_def)
  from encode_roundtrip [OF this, of empty_reads_as "[]"]
  obtain payload where
    up: "handleFileChange empty_reads_as (Some [png_file]) =
        Inr (Some \<lparr>file_of = png_file, base64 = Some payload\<rparr>)"
    and dec: "base64_decode payload = Some (fbytes png_file)"
    by blast
  from up have "payload = ''iVBORw==''"
    by (simp only: png_upload sum.inject option.inject ImageFile.simps) simp
  with up dec show ?thesis by (simp add: png_file_def)
qed

section \<open>Claims about the result and its use\<close>

lemma handleGenerate_success:
  assumes "originalImage st = Some img"
    and "editImageWithPrompt generateContent ai (base64 img) (ftype (file_of img))
           prompt_sent = Success d"
  shows "handleGenerate generateContent ai st =
     st\<lparr>isLoading := False, error := None,
        editedImage := Some (''data:image/png;base64,'' @ template_value d),
        generatedAccessory := Some accessoryType\<rparr>"
  using assms by (simp add: handleGenerate_def Let_def)

text \<open>
  C10. On success the promise carries only the \<open>data\<close> string of the matched part:
  the \<open>mimeType\<close> that the response declares for it appears nowhere in the result.
  The caller \<open>handleGenerate\<close> then shows the result under a data URI that always
  starts with \<open>data:image/png;base64,\<close>, whatever that media type was.
\<close>

theorem response_media_type_is_discarded:
  assumes "originalImage st = Some img"
    and "generateContent ai (request_of (base64 img) (ftype (file_of img))
           prompt_sent) = (Resolves r :: 'v call_outcome)"
    and "scanned_parts r = pre @ ip # post"
    and "\<forall>q \<in> set pre. inlineData q = None"
    and "inlineData ip = Some \<lparr>data = d, mimeType = mt\<rparr>"
  shows "editImageWithPrompt generateContent ai (base64 img) (ftype (file_of img))
           prompt_sent = Success d \<and>
    editedImage (handleGenerate generateContent ai st) =
      Some (''data:image/png;base64,'' @ template_value d) \<and>
    error (handleGenerate generateContent ai st) = None"
proof -
  have "settle (Resolves r :: 'v call_outcome) = Success (data \<lparr>data = d, mimeType = mt\<rparr>)"
    using assms(3-5) by (rule settle_image)
  then have ok: "editImageWithPrompt generateContent ai (base64 img) (ftype (file_of img))
           prompt_sent = Success d"
    by (simp add: editImageWithPrompt_def assms(2))
  show ?thesis
    using ok by (simp add: handleGenerate_success [OF assms(1) ok])
qed

theorem response_media_type_is_discarded_witness:
  "editedImage
     (handleGenerate
        (always (Resolves (one_candidate [image_part (Some ''AAAA'') (Some ''image/jpeg'')])))
        test_client uploaded_state) = Some ''data:image/png;base64,AAAA''"
  using response_media_type_is_discarded
    [of uploaded_state "\<lparr>file_of = png_file, base64 = Some ''iVBORw==''\<rparr>"
      "always (Resolves (one_candidate [image_part (Some ''AAAA'') (Some ''image/jpeg'')]))"
      test_client
      "one_candidate [image_part (Some ''AAAA'') (Some ''image/jpeg'')]"
      "[]" "image_part (Some ''AAAA'') (Some ''image/jpeg'')" "[]"
      "Some ''AAAA''" "Some ''image/jpeg''"]
  by (simp add: uploaded_state_def always_def one_candidate_def image_part_def
      scanned_parts_def first_candidate_def template_value_def)

text \<open>
  C5. For every image, media type and instruction, and whatever the service answers,
  the function ends in exactly one of two ways: the promise resolves with the
  \<open>data\<close> of the first part of the first candidate that has \<open>inlineData\<close>, taken
  as the response gave it, or it is rejected with a message that starts with
  \<open>Failed to generate image: \<close> and so is never empty. No error leaves the
  function otherwise.
\<close>

theorem every_outcome_is_success_or_failure:
  fixes generateContent :: "GoogleGenAI \<Rightarrow> generate_params \<Rightarrow> 'v call_outcome"
  shows "((\<exists>r pre ip post bl.
        generateContent ai (request_of b m p) = Resolves r \<and>
        scanned_parts r = pre @ ip # post \<and>
        list_all (\<lambda>q. inlineData q = None) pre \<and>
        inlineData ip = Some bl \<and>
        editImageWithPrompt generateContent ai b m p = Success (data bl)) \<or>
     (\<exists>e. editImageWithPrompt generateContent ai b m p =
        Failure (''Failed to generate image: '' @ e))) \<and>
    editImageWithPrompt generateContent ai b m p \<noteq> Failure []"
proof (cases "generateContent ai (request_of b m p)")
  case (Rejects e)
  then have "editImageWithPrompt generateContent ai b m p =
      Failure (''Failed to generate image: '' @ errorMessage e)"
    by (simp add: editImageWithPrompt_def settle_rejects catch_clause_def)
  then show ?thesis by simp
next
  case (Resolves r)
  show ?thesis
  proof (cases "scan (scanned_parts r) :: 'v thrown + string option")
    case (Inl e)
    with Resolves have "editImageWithPrompt generateContent ai b m p =
        Failure (''Failed to generate image: '' @ errorMessage e)"
      by (simp add: editImageWithPrompt_def settle_resolves catch_clause_def)
    then show ?thesis by simp
  next
    case (Inr v)
    from scan_found [OF this] obtain pre ip post bl where
      "scanned_parts r = pre @ ip # post" "list_all (\<lambda>q. inlineData q = None) pre"
      "inlineData ip = Some bl" "v = data bl" by blast
    moreover from Resolves Inr have "editImageWithPrompt generateContent ai b m p = Success v"
      by (simp add: editImageWithPrompt_def settle_resolves)
    ultimately show ?thesis using Resolves by auto
  qed
qed

theorem every_outcome_is_success_or_failure_witness:
  "editImageWithPrompt (always (Rejects (NonError ())))
     test_client (Some ''QUJD'') ''image/png'' ''edit'' \<noteq> Failure []"
  using every_outcome_is_success_or_failure
    [of "always (Rejects (NonError ()))" test_client "Some ''QUJD''" "''image/png''" "''edit''"]
  by blast

text \<open>
  The resolved value is not checked: a response whose first part with
  \<open>inlineData\<close> has no \<open>data\<close>, or has the empty string as \<open>data\<close>, resolves the
  promise with \<open>undefined\<close> or with the empty string, and neither is a valid payload
  in the specification's sense.
\<close>

theorem success_payload_counterexample:
  "editImageWithPrompt
     (always (Resolves (one_candidate [image_part None (Some ''image/png'')])))
     test_client (Some ''QUJD'') ''image/png'' ''edit'' = Success None \<and>
   \<not> spec_structurally_valid None \<and>
   editImageWithPrompt
     (always (Resolves (one_candidate [image_part (Some []) (Some ''image/png'')])))
     test_client (Some ''QUJD'') ''image/png'' ''edit'' = Success (Some []) \<and>
   \<not> spec_structurally_valid (Some [])"
  by (simp add: editImageWithPrompt_def settle_def try_body_def always_def one_candidate_def
      image_part_def scanned_parts_def first_candidate_def spec_structurally_valid_def)

end
